theory Spec2Isabelle
  imports Main
begin

section \<open>Values of the host language\<close>

text \<open>
  The payload of an entry is any serializable value. \<open>json\<close> is the structured value that
  \<^verbatim>\<open>JSON.parse\<close> returns and \<^verbatim>\<open>JSON.stringify\<close> accepts; numbers are the
  integers (milliseconds and timestamps are integers). \<open>any\<close> adds \<^verbatim>\<open>undefined\<close>,
  which a parameter, a missing property and a return value can be.
\<close>

datatype json =
    JNull
  | JBool bool
  | JNum int
  | JStr string
  | JArr "json list"
  | JObj "(string \<times> json) list"

datatype any = Undefined | Val json

abbreviation null :: any where
  "null \<equiv> Val JNull"

definition EXPIRED_AT :: string where
  "EXPIRED_AT = ''@@EXPIRED_AT''"

definition STOREAGE_VALUE :: string where
  "STOREAGE_VALUE = ''@@STORAGE_VALUE''"

definition EXPIRED_MS :: string where
  "EXPIRED_MS = ''@@EXPIRED_MS''"

text \<open>Property access \<^verbatim>\<open>obj[name]\<close> with a name that is not an array index.\<close>

fun get_property :: "json \<Rightarrow> string \<Rightarrow> any" where
  "get_property (JObj fs) name = (case map_of fs name of None \<Rightarrow> Undefined | Some v \<Rightarrow> Val v)"
| "get_property _ name = Undefined"

text \<open>\<^verbatim>\<open>String(x)\<close>: the decimal rendering of a number, and the host's rendering of the rest.\<close>

definition digit_char :: "nat \<Rightarrow> char" where
  "digit_char n = char_of (48 + n)"

function dec :: "int \<Rightarrow> string" where
  "dec n =
     (if n < 10 then [digit_char (nat n)]
      else dec (n div 10) @ [digit_char (nat (n mod 10))])"
  by pat_completeness auto
termination
  by (relation "measure nat") auto

declare dec.simps [simp del]

definition show_int :: "int \<Rightarrow> string" where
  "show_int i = (if i < 0 then CHR ''-'' # dec (- i) else dec i)"

fun join_comma :: "string list \<Rightarrow> string" where
  "join_comma [] = []"
| "join_comma [s] = s"
| "join_comma (s # t # ss) = s @ '','' @ join_comma (t # ss)"

fun String_json :: "json \<Rightarrow> string" where
  "String_json JNull = ''null''"
| "String_json (JBool b) = (if b then ''true'' else ''false'')"
| "String_json (JNum n) = show_int n"
| "String_json (JStr s) = s"
| "String_json (JArr xs) = join_comma (map (\<lambda>x. if x = JNull then [] else String_json x) xs)"
| "String_json (JObj fs) = ''[object Object]''"

fun String_js :: "any \<Rightarrow> string" where
  "String_js Undefined = ''undefined''"
| "String_js (Val v) = String_json v"

section \<open>The runtime the store is linked against\<close>

text \<open>
  Modelled from the spec: the duration parser \<^verbatim>\<open>./ms\<close> is not part of the sources. It maps
  a duration string to a number of milliseconds and fails on an unrecognized format, the
  failure propagating to its caller; it is a parameter here, \<open>Some n\<close> when it returns the
  number \<open>n\<close> and \<open>None\<close> when it fails. \<^verbatim>\<open>JSON.stringify\<close> and \<^verbatim>\<open>JSON.parse\<close> are
  the host's and parameters too; \<open>None\<close> is the \<^verbatim>\<open>SyntaxError\<close> of the parser. The values
  serialized are those of \<open>json\<close>, on which \<^verbatim>\<open>JSON.stringify\<close> returns a string.
\<close>

record runtime =
  ms :: "string \<Rightarrow> int option"
  JSON_stringify :: "json \<Rightarrow> string"
  JSON_parse :: "string \<Rightarrow> json option"

text \<open>
  A storage medium (\<^verbatim>\<open>window.localStorage\<close>, \<^verbatim>\<open>window.sessionStorage\<close>): whether the
  window has it (\<^verbatim>\<open>storageType in window && window[storageType] !== null\<close>), the message
  of the error every access raises when the medium is unusable, and its entries.
\<close>

record Storage =
  present :: bool
  raises :: "string option"
  items :: "string \<rightharpoonup> string"

definition setItem :: "Storage \<Rightarrow> string \<Rightarrow> string \<Rightarrow> string + Storage" where
  "setItem m k v =
     (case raises m of Some msg \<Rightarrow> Inl msg | None \<Rightarrow> Inr (m\<lparr>items := (items m)(k \<mapsto> v)\<rparr>))"

definition getItem :: "Storage \<Rightarrow> string \<Rightarrow> string + string option" where
  "getItem m k = (case raises m of Some msg \<Rightarrow> Inl msg | None \<Rightarrow> Inr (items m k))"

definition removeItem :: "Storage \<Rightarrow> string \<Rightarrow> string + Storage" where
  "removeItem m k =
     (case raises m of Some msg \<Rightarrow> Inl msg | None \<Rightarrow> Inr (m\<lparr>items := (items m)(k := None)\<rparr>))"

definition clearItems :: "Storage \<Rightarrow> string + Storage" where
  "clearItems m =
     (case raises m of Some msg \<Rightarrow> Inl msg | None \<Rightarrow> Inr (m\<lparr>items := Map.empty\<rparr>))"

datatype StorageType = LOCAL | SESSION | UNRECOGNIZED string

text \<open>The global object and the clock: \<open>now\<close> is what \<^verbatim>\<open>+new Date()\<close> reads.\<close>

record world =
  window :: "StorageType \<Rightarrow> Storage"
  now :: int

definition put_medium :: "world \<Rightarrow> StorageType \<Rightarrow> Storage \<Rightarrow> world" where
  "put_medium w t m = w\<lparr>window := (window w)(t := m)\<rparr>"

section \<open>Configuration, notifications and errors\<close>

text \<open>
  Modelled from the spec: \<^verbatim>\<open>storage.config\<close> and \<^verbatim>\<open>storage.errors\<close> are not part of
  the sources. The configuration surface is \<^verbatim>\<open>{ prefix?, expiredIn?, keepAlive?,
  actionNotify?: { Set?, Get?, Remove?, Clear? } }\<close>; an action record is tagged by its kind
  and carries the arguments of the call; an error is one of three constants or a
  \<^verbatim>\<open>{ code, message }\<close> pair.
\<close>

datatype ActionType = SetAction_TYPE | GetAction_TYPE | RemoveAction_TYPE | ClearAction_TYPE

datatype Actions =
    SetAction string any "string option"
  | GetAction string
  | RemoveAction string
  | ClearAction

datatype AngularWebStoreError =
    SESSION_STORAGE_NOT_SUPPORTED
  | LOCAL_STORAGE_NOT_SUPPORTED
  | UNKNOWN_STORAGE_TYPE
  | Fault int string

record AngularWebStoreConfig =
  cfg_prefix :: "string option"
  cfg_expiredIn :: "string option"
  cfg_keepAlive :: "bool option"
  cfg_actionNotify :: "(ActionType \<Rightarrow> bool) option"

text \<open>What an operation can throw to its caller.\<close>

datatype thrown =
    TypeError
  | SyntaxError
  | DurationError string
  | StorageError string

section \<open>The store\<close>

text \<open>
  \<open>storage\<close> is the handle: the medium the store is bound to, or \<open>None\<close> when the field was
  never assigned. \<open>errors\<close> and \<open>actions\<close> list the values passed to the two subjects, oldest
  first. \<open>observer\<close> is the outcome of \<^verbatim>\<open>this.actions.next(record)\<close>: \<open>None\<close> when the call
  returns, \<open>Some msg\<close> when it raises an error with that message, which is the case the
  \<^verbatim>\<open>catch\<close> of \<open>notifyAction\<close> handles. The subject is not part of the sources: whether it
  ever raises is a parameter, and a freshly constructed store has \<open>observer = (\<lambda>_. None)\<close>.
  \<^verbatim>\<open>this.errors.next\<close> is taken to return.
\<close>

record StorageService =
  storage :: "StorageType option"
  prefix :: string
  expiredMs :: int
  keepAlive :: bool
  actionNotify :: "ActionType \<Rightarrow> bool"
  errors :: "AngularWebStoreError list"
  actions :: "Actions list"
  observer :: "Actions \<Rightarrow> string option"

definition errors_next :: "StorageService \<Rightarrow> AngularWebStoreError \<Rightarrow> StorageService" where
  "errors_next st e = st\<lparr>errors := errors st @ [e]\<rparr>"

definition notifyAction :: "StorageService \<Rightarrow> ActionType \<Rightarrow> Actions \<Rightarrow> StorageService" where
  "notifyAction st action actionArgs =
     (if actionNotify st action then
        (case observer st actionArgs of
           None \<Rightarrow> st\<lparr>actions := actions st @ [actionArgs]\<rparr>
         | Some msg \<Rightarrow> errors_next (st\<lparr>actions := actions st @ [actionArgs]\<rparr>) (Fault 500 msg))
      else st)"

definition computeExpiredMs :: "runtime \<Rightarrow> StorageService \<Rightarrow> string option \<Rightarrow> thrown + int" where
  "computeExpiredMs rt st expiredIn =
     (case expiredIn of
        None \<Rightarrow> Inr (expiredMs st)
      | Some s \<Rightarrow>
          if s = [] then Inr (expiredMs st)
          else (case ms rt s of None \<Rightarrow> Inl (DurationError s) | Some n \<Rightarrow> Inr n))"

definition computeKey :: "StorageService \<Rightarrow> string \<Rightarrow> string" where
  "computeKey st originalKey = prefix st @ ''__'' @ originalKey"

definition isValidValue :: "json \<Rightarrow> bool" where
  "isValidValue obj =
     ((case obj of JObj _ \<Rightarrow> True | JArr _ \<Rightarrow> True | JNull \<Rightarrow> True | _ \<Rightarrow> False) \<and>
      obj \<noteq> JNull \<and>
      (case get_property obj EXPIRED_AT of Val (JNum _) \<Rightarrow> True | _ \<Rightarrow> False))"

definition unExpired :: "world \<Rightarrow> int \<Rightarrow> bool" where
  "unExpired w mills = (mills = - 1 \<or> mills \<ge> now w)"

text \<open>
  The object literal that \<open>set\<close> serializes. \<^verbatim>\<open>JSON.stringify\<close> leaves out a property
  whose value is \<^verbatim>\<open>undefined\<close>.
\<close>

definition envelope :: "int \<Rightarrow> int \<Rightarrow> any \<Rightarrow> json" where
  "envelope ttl expiredAt v =
     JObj ([(EXPIRED_MS, JNum ttl), (EXPIRED_AT, JNum expiredAt)] @
           (case v of Undefined \<Rightarrow> [] | Val x \<Rightarrow> [(STOREAGE_VALUE, x)]))"

definition set_op ::
  "runtime \<Rightarrow> StorageService \<Rightarrow> world \<Rightarrow> string \<Rightarrow> any \<Rightarrow> string option \<Rightarrow>
   (thrown + unit) \<times> StorageService \<times> world" where
  "set_op rt st w key v expiredIn =
     (let st1 = notifyAction st SetAction_TYPE (SetAction key v expiredIn) in
      case computeExpiredMs rt st1 expiredIn of
        Inl e \<Rightarrow> (Inl e, st1, w)
      | Inr ttl \<Rightarrow>
          (case storage st1 of
             None \<Rightarrow> (Inl TypeError, st1, w)
           | Some t \<Rightarrow>
               (case setItem (window w t) (computeKey st1 key)
                       (JSON_stringify rt
                          (envelope ttl (if ttl = - 1 then - 1 else now w + ttl) v)) of
                  Inl msg \<Rightarrow> (Inl (StorageError msg), st1, w)
                | Inr m \<Rightarrow> (Inr (), st1, put_medium w t m))))"

text \<open>\<^verbatim>\<open>item || 'null'\<close>: an absent entry and an empty string both read as \<^verbatim>\<open>'null'\<close>.\<close>

definition or_null :: "string option \<Rightarrow> string" where
  "or_null item = (case item of None \<Rightarrow> ''null'' | Some s \<Rightarrow> if s = [] then ''null'' else s)"

text \<open>The body of the \<^verbatim>\<open>try\<close> block of \<open>get\<close>.\<close>

definition get_try ::
  "runtime \<Rightarrow> StorageService \<Rightarrow> world \<Rightarrow> string \<Rightarrow> (thrown + any) \<times> StorageService \<times> world" where
  "get_try rt st w key =
     (case storage st of
        None \<Rightarrow> (Inl TypeError, st, w)
      | Some t \<Rightarrow>
          (case getItem (window w t) (computeKey st key) of
             Inl msg \<Rightarrow> (Inl (StorageError msg), st, w)
           | Inr item \<Rightarrow>
               (case JSON_parse rt (or_null item) of
                  None \<Rightarrow> (Inl SyntaxError, st, w)
                | Some obj \<Rightarrow>
                    if isValidValue obj then
                      (case get_property obj EXPIRED_AT of
                         Val (JNum mills) \<Rightarrow>
                           if unExpired w mills then
                             (let v = get_property obj STOREAGE_VALUE in
                              if mills \<noteq> - 1 \<and> keepAlive st then
                                (case set_op rt st w key v
                                        (Some (String_js (get_property obj EXPIRED_MS) @ ''ms'')) of
                                   (Inl e, st', w') \<Rightarrow> (Inl e, st', w')
                                 | (Inr _, st', w') \<Rightarrow> (Inr v, st', w'))
                              else (Inr v, st, w))
                           else
                             (case removeItem (window w t) (computeKey st key) of
                                Inl msg \<Rightarrow> (Inl (StorageError msg), st, w)
                              | Inr m \<Rightarrow> (Inr null, st, put_medium w t m))
                       | _ \<Rightarrow> (Inr null, st, w))
                    else (Inr null, st, w))))"

definition get ::
  "runtime \<Rightarrow> StorageService \<Rightarrow> world \<Rightarrow> string \<Rightarrow> (thrown + any) \<times> StorageService \<times> world" where
  "get rt st w key =
     (let st1 = notifyAction st GetAction_TYPE (GetAction key) in
      case get_try rt st1 w key of
        (Inl e, st', w') \<Rightarrow> (Inr null, st', w')
      | (Inr v, st', w') \<Rightarrow> (Inr v, st', w'))"

definition remove ::
  "StorageService \<Rightarrow> world \<Rightarrow> string \<Rightarrow> (thrown + unit) \<times> StorageService \<times> world" where
  "remove st w key =
     (let st1 = notifyAction st RemoveAction_TYPE (RemoveAction key) in
      case storage st1 of
        None \<Rightarrow> (Inl TypeError, st1, w)
      | Some t \<Rightarrow>
          (case removeItem (window w t) (computeKey st1 key) of
             Inl msg \<Rightarrow> (Inl (StorageError msg), st1, w)
           | Inr m \<Rightarrow> (Inr (), st1, put_medium w t m)))"

definition clear ::
  "StorageService \<Rightarrow> world \<Rightarrow> (thrown + unit) \<times> StorageService \<times> world" where
  "clear st w =
     (let st1 = notifyAction st ClearAction_TYPE ClearAction in
      case storage st1 of
        None \<Rightarrow> (Inl TypeError, st1, w)
      | Some t \<Rightarrow>
          (case clearItems (window w t) of
             Inl msg \<Rightarrow> (Inl (StorageError msg), st1, w)
           | Inr m \<Rightarrow> (Inr (), st1, put_medium w t m)))"

subsection \<open>Construction\<close>

definition initConfig :: "runtime \<Rightarrow> AngularWebStoreConfig \<Rightarrow> thrown + StorageService" where
  "initConfig rt config =
     (case (case cfg_expiredIn config of
              None \<Rightarrow> Inr (- 1)
            | Some s \<Rightarrow>
                if s = [] then Inr (- 1)
                else (case ms rt s of None \<Rightarrow> Inl (DurationError s) | Some n \<Rightarrow> Inr n)) of
        Inl e \<Rightarrow> Inl e
      | Inr ttl \<Rightarrow>
          Inr \<lparr> storage = None,
                prefix = (case cfg_prefix config of
                            None \<Rightarrow> ''MIZNE''
                          | Some p \<Rightarrow> if p = [] then ''MIZNE'' else p),
                expiredMs = ttl,
                keepAlive = (case cfg_keepAlive config of None \<Rightarrow> False | Some b \<Rightarrow> b),
                actionNotify = (case cfg_actionNotify config of
                                  None \<Rightarrow> (\<lambda>_. False)
                                | Some f \<Rightarrow> f),
                errors = [],
                actions = [],
                observer = (\<lambda>_. None) \<rparr>)"

definition checkSupport ::
  "StorageService \<Rightarrow> world \<Rightarrow> StorageType \<Rightarrow> bool \<times> StorageService \<times> world" where
  "checkSupport st w storageType =
     (let webStorage = window w storageType; key = prefix st @ ''_CHECK_SUPPORT'' in
      if present webStorage then
        (case setItem webStorage key [] of
           Inl msg \<Rightarrow> (False, errors_next st (Fault 500 msg), w)
         | Inr m1 \<Rightarrow>
             (case removeItem m1 key of
                Inl msg \<Rightarrow> (False, errors_next st (Fault 500 msg), put_medium w storageType m1)
              | Inr m2 \<Rightarrow> (True, st, put_medium w storageType m2)))
      else (False, st, w))"

definition initStorage ::
  "StorageService \<Rightarrow> world \<Rightarrow> StorageType \<Rightarrow> StorageService \<times> world" where
  "initStorage st w storageType =
     (case storageType of
        LOCAL \<Rightarrow>
          (case checkSupport st w storageType of
             (True, st', w') \<Rightarrow> (st'\<lparr>storage := Some storageType\<rparr>, w')
           | (False, st', w') \<Rightarrow> (errors_next st' LOCAL_STORAGE_NOT_SUPPORTED, w'))
      | SESSION \<Rightarrow>
          (case checkSupport st w storageType of
             (True, st', w') \<Rightarrow> (st'\<lparr>storage := Some storageType\<rparr>, w')
           | (False, st', w') \<Rightarrow> (errors_next st' SESSION_STORAGE_NOT_SUPPORTED, w'))
      | UNRECOGNIZED _ \<Rightarrow> (errors_next st UNKNOWN_STORAGE_TYPE, w))"

definition constructor ::
  "runtime \<Rightarrow> StorageType \<Rightarrow> AngularWebStoreConfig \<Rightarrow> world \<Rightarrow> thrown + StorageService \<times> world" where
  "constructor rt storageType config w =
     (case initConfig rt config of
        Inl e \<Rightarrow> Inl e
      | Inr st \<Rightarrow> Inr (initStorage st w storageType))"

section \<open>A reference runtime\<close>

text \<open>
  A concrete runtime on which the operations can be evaluated: a duration parser for the
  formats the documentation of \<open>set\<close> lists (\<^verbatim>\<open>'3ms' '4s' '5m' '6h' '7d' '8y'\<close>, a year
  being 365.25 days), and a JSON printer and parser for the values of \<open>json\<close>. The codec
  covers what \<open>json\<close> can hold: numbers are integers (a fraction or an exponent is rejected),
  strings are byte strings (an escape \<^verbatim>\<open>\uXXXX\<close> above \<^verbatim>\<open>00FF\<close> is rejected), and of two
  members with the same name the later one is kept.
\<close>

definition is_digit :: "char \<Rightarrow> bool" where
  "is_digit c = (48 \<le> (of_char c :: nat) \<and> (of_char c :: nat) \<le> 57)"

definition digit_val :: "char \<Rightarrow> nat" where
  "digit_val c = of_char c - 48"

definition read_digits :: "string \<Rightarrow> int" where
  "read_digits ds = foldl (\<lambda>a c. 10 * a + int (digit_val c)) 0 ds"

definition unit_ms :: "string \<Rightarrow> int option" where
  "unit_ms u =
     (if u = ''ms'' then Some 1
      else if u = ''s'' then Some 1000
      else if u = ''m'' then Some 60000
      else if u = ''h'' then Some 3600000
      else if u = ''d'' then Some 86400000
      else if u = ''y'' then Some 31557600000
      else None)"

definition ms_ref :: "string \<Rightarrow> int option" where
  "ms_ref s =
     (let ds = takeWhile is_digit s; u = dropWhile is_digit s in
      if ds = [] then None
      else (case unit_ms u of None \<Rightarrow> None | Some k \<Rightarrow> Some (read_digits ds * k)))"

definition hex_char :: "nat \<Rightarrow> char" where
  "hex_char n = (if n < 10 then char_of (48 + n) else char_of (87 + n))"

definition escape_char :: "char \<Rightarrow> string" where
  "escape_char c =
     (if c = CHR 0x22 \<or> c = CHR 0x5C then [CHR 0x5C, c]
      else if c = CHR 0x08 then [CHR 0x5C, CHR ''b'']
      else if c = CHR 0x0C then [CHR 0x5C, CHR ''f'']
      else if c = CHR 0x0A then [CHR 0x5C, CHR ''n'']
      else if c = CHR 0x0D then [CHR 0x5C, CHR ''r'']
      else if c = CHR 0x09 then [CHR 0x5C, CHR ''t'']
      else if (of_char c :: nat) < 32 then
        [CHR 0x5C, CHR ''u'', CHR ''0'', CHR ''0'',
         hex_char ((of_char c :: nat) div 16), hex_char ((of_char c :: nat) mod 16)]
      else [c])"

definition escape :: "string \<Rightarrow> string" where
  "escape s = concat (map escape_char s)"

definition quote :: "string \<Rightarrow> string" where
  "quote s = [CHR 0x22] @ escape s @ [CHR 0x22]"

fun stringify_ref :: "json \<Rightarrow> string" where
  "stringify_ref JNull = ''null''"
| "stringify_ref (JBool b) = (if b then ''true'' else ''false'')"
| "stringify_ref (JNum n) = show_int n"
| "stringify_ref (JStr s) = quote s"
| "stringify_ref (JArr xs) = ''['' @ join_comma (map stringify_ref xs) @ '']''"
| "stringify_ref (JObj fs) =
     ''{'' @ join_comma (map (\<lambda>kv. quote (fst kv) @ '':'' @ stringify_ref (snd kv)) fs) @ ''}''"

definition skip_ws :: "string \<Rightarrow> string" where
  "skip_ws s = dropWhile (\<lambda>c. c = CHR '' '' \<or> c = CHR 0x0A \<or> c = CHR 0x0D \<or> c = CHR 0x09) s"

definition hex_val :: "char \<Rightarrow> nat option" where
  "hex_val c =
     (let n = (of_char c :: nat) in
      if 48 \<le> n \<and> n \<le> 57 then Some (n - 48)
      else if 97 \<le> n \<and> n \<le> 102 then Some (n - 87)
      else if 65 \<le> n \<and> n \<le> 70 then Some (n - 55)
      else None)"

text \<open>The character an escape sequence stands for, and the input after the sequence.\<close>

definition unescape :: "string \<Rightarrow> (char \<times> string) option" where
  "unescape s =
     (case s of
        [] \<Rightarrow> None
      | d # ds \<Rightarrow>
          if d = CHR 0x22 \<or> d = CHR 0x5C \<or> d = CHR ''/'' then Some (d, ds)
          else if d = CHR ''b'' then Some (CHR 0x08, ds)
          else if d = CHR ''f'' then Some (CHR 0x0C, ds)
          else if d = CHR ''n'' then Some (CHR 0x0A, ds)
          else if d = CHR ''r'' then Some (CHR 0x0D, ds)
          else if d = CHR ''t'' then Some (CHR 0x09, ds)
          else if d = CHR ''u'' then
            (case ds of
               a # b # c # e # rest \<Rightarrow>
                 (case (hex_val a, hex_val b, hex_val c, hex_val e) of
                    (Some 0, Some 0, Some h, Some l) \<Rightarrow> Some (char_of (16 * h + l), rest)
                  | _ \<Rightarrow> None)
             | _ \<Rightarrow> None)
          else None)"

function parse_string_body :: "string \<Rightarrow> (string \<times> string) option" where
  "parse_string_body [] = None"
| "parse_string_body (c # cs) =
     (if c = CHR 0x22 then Some ([], cs)
      else if c = CHR 0x5C then
        (case unescape cs of
           None \<Rightarrow> None
         | Some (d, ds) \<Rightarrow> map_option (\<lambda>(s, r). (d # s, r)) (parse_string_body ds))
      else if (of_char c :: nat) < 32 then None
      else map_option (\<lambda>(s, r). (c # s, r)) (parse_string_body cs))"
  by pat_completeness auto
termination
  by (relation "measure length")
    (auto simp: unescape_def split: list.splits if_splits option.splits nat.splits)

text \<open>A run of digits; JSON allows no leading zero.\<close>

definition parse_digits :: "string \<Rightarrow> (int \<times> string) option" where
  "parse_digits s =
     (let ds = takeWhile is_digit s; r = dropWhile is_digit s in
      if ds = [] then None
      else if hd ds = CHR ''0'' \<and> tl ds \<noteq> [] then None
      else if r \<noteq> [] \<and> (hd r = CHR ''.'' \<or> hd r = CHR ''e'' \<or> hd r = CHR ''E'') then None
      else Some (read_digits ds, r))"

fun parse_value :: "nat \<Rightarrow> string \<Rightarrow> (json \<times> string) option"
  and parse_items :: "nat \<Rightarrow> string \<Rightarrow> (json list \<times> string) option"
  and parse_fields :: "nat \<Rightarrow> string \<Rightarrow> ((string \<times> json) list \<times> string) option" where
  "parse_value 0 s = None"
| "parse_value (Suc n) s =
     (case skip_ws s of
        [] \<Rightarrow> None
      | c # cs \<Rightarrow>
          if c = CHR ''n'' then (if take 3 cs = ''ull'' then Some (JNull, drop 3 cs) else None)
          else if c = CHR ''t'' then
            (if take 3 cs = ''rue'' then Some (JBool True, drop 3 cs) else None)
          else if c = CHR ''f'' then
            (if take 4 cs = ''alse'' then Some (JBool False, drop 4 cs) else None)
          else if c = CHR 0x22 then map_option (\<lambda>(x, r). (JStr x, r)) (parse_string_body cs)
          else if c = CHR ''['' then
            (case skip_ws cs of
               [] \<Rightarrow> None
             | d # ds \<Rightarrow>
                 if d = CHR '']'' then Some (JArr [], ds)
                 else map_option (\<lambda>(xs, r). (JArr xs, r)) (parse_items n cs))
          else if c = CHR ''{'' then
            (case skip_ws cs of
               [] \<Rightarrow> None
             | d # ds \<Rightarrow>
                 if d = CHR ''}'' then Some (JObj [], ds)
                 else map_option (\<lambda>(fs, r). (JObj fs, r)) (parse_fields n cs))
          else if c = CHR ''-'' then
            map_option (\<lambda>(k, r). (JNum (- k), r)) (parse_digits cs)
          else map_option (\<lambda>(k, r). (JNum k, r)) (parse_digits (c # cs)))"
| "parse_items 0 s = None"
| "parse_items (Suc n) s =
     (case parse_value n s of
        None \<Rightarrow> None
      | Some (x, r) \<Rightarrow>
          (case skip_ws r of
             [] \<Rightarrow> None
           | c # cs \<Rightarrow>
               if c = CHR '','' then map_option (\<lambda>(xs, r'). (x # xs, r')) (parse_items n cs)
               else if c = CHR '']'' then Some ([x], cs)
               else None))"
| "parse_fields 0 s = None"
| "parse_fields (Suc n) s =
     (case skip_ws s of
        [] \<Rightarrow> None
      | q # qs \<Rightarrow>
          if q \<noteq> CHR 0x22 then None
          else
            (case parse_string_body qs of
               None \<Rightarrow> None
             | Some (k, r) \<Rightarrow>
                 (case skip_ws r of
                    [] \<Rightarrow> None
                  | c # cs \<Rightarrow>
                      if c \<noteq> CHR '':'' then None
                      else
                        (case parse_value n cs of
                           None \<Rightarrow> None
                         | Some (x, r') \<Rightarrow>
                             (case skip_ws r' of
                                [] \<Rightarrow> None
                              | e # es \<Rightarrow>
                                  if e = CHR '','' then
                                    map_option
                                      (\<lambda>(fs, r'').
                                         (if k \<in> set (map fst fs) then fs else (k, x) # fs, r''))
                                      (parse_fields n es)
                                  else if e = CHR ''}'' then Some ([(k, x)], es)
                                  else None)))))"

definition parse_ref :: "string \<Rightarrow> json option" where
  "parse_ref s =
     (case parse_value (Suc (length s)) s of
        None \<Rightarrow> None
      | Some (x, r) \<Rightarrow> if skip_ws r = [] then Some x else None)"

definition reference_runtime :: runtime where
  "reference_runtime = \<lparr> ms = ms_ref, JSON_stringify = stringify_ref, JSON_parse = parse_ref \<rparr>"

section \<open>Scenarios\<close>

text \<open>
  Configurations, media and worlds on which the operations are evaluated, and what a
  construction emitted on the error stream.
\<close>

definition default_config :: AngularWebStoreConfig where
  "default_config =
     \<lparr> cfg_prefix = None, cfg_expiredIn = None, cfg_keepAlive = None, cfg_actionNotify = None \<rparr>"

definition usable_medium :: Storage where
  "usable_medium = \<lparr> present = True, raises = None, items = Map.empty \<rparr>"

definition throwing_medium :: "string \<Rightarrow> Storage" where
  "throwing_medium msg = \<lparr> present = True, raises = Some msg, items = Map.empty \<rparr>"

definition world_of :: "Storage \<Rightarrow> int \<Rightarrow> world" where
  "world_of m t = \<lparr> window = (\<lambda>_. m), now = t \<rparr>"

definition construction_errors ::
  "runtime \<Rightarrow> StorageType \<Rightarrow> AngularWebStoreConfig \<Rightarrow> world \<Rightarrow> AngularWebStoreError list" where
  "construction_errors rt storageType config w =
     (case constructor rt storageType config w of
        Inl e \<Rightarrow> []
      | Inr (st, w') \<Rightarrow> errors st)"

definition unavailable_store :: StorageService where
  "unavailable_store =
     \<lparr> storage = None, prefix = ''MIZNE'', expiredMs = - 1, keepAlive = False,
       actionNotify = (\<lambda>_. False),
       errors = [Fault 500 ''denied'', LOCAL_STORAGE_NOT_SUPPORTED],
       actions = [], observer = (\<lambda>_. None) \<rparr>"

definition local_store :: "string \<Rightarrow> int \<Rightarrow> bool \<Rightarrow> (ActionType \<Rightarrow> bool) \<Rightarrow> StorageService" where
  "local_store p ttl ka notify =
     \<lparr> storage = Some LOCAL, prefix = p, expiredMs = ttl, keepAlive = ka, actionNotify = notify,
       errors = [], actions = [], observer = (\<lambda>_. None) \<rparr>"

section \<open>Basic facts\<close>

lemma notifyAction_fields [simp]:
  "storage (notifyAction st a x) = storage st"
  "prefix (notifyAction st a x) = prefix st"
  "expiredMs (notifyAction st a x) = expiredMs st"
  "keepAlive (notifyAction st a x) = keepAlive st"
  "actionNotify (notifyAction st a x) = actionNotify st"
  "observer (notifyAction st a x) = observer st"
  by (simp_all add: notifyAction_def errors_next_def split: option.splits)

lemma computeKey_notifyAction [simp]:
  "computeKey (notifyAction st a x) key = computeKey st key"
  by (simp add: computeKey_def)

lemma computeExpiredMs_notifyAction [simp]:
  "computeExpiredMs rt (notifyAction st a x) e = computeExpiredMs rt st e"
  by (simp add: computeExpiredMs_def split: option.splits)

lemma fst_set_op:
  "fst (set_op rt st w key v e) =
     (case computeExpiredMs rt st e of
        Inl x \<Rightarrow> Inl x
      | Inr ttl \<Rightarrow>
          (case storage st of
             None \<Rightarrow> Inl TypeError
           | Some t \<Rightarrow>
               (case raises (window w t) of
                  Some msg \<Rightarrow> Inl (StorageError msg)
                | None \<Rightarrow> Inr ())))"
  by (simp add: set_op_def Let_def setItem_def split: sum.splits option.splits)

lemma fst_get_try:
  "fst (get_try rt st w key) =
     (case storage st of
        None \<Rightarrow> Inl TypeError
      | Some t \<Rightarrow>
          (case raises (window w t) of
             Some msg \<Rightarrow> Inl (StorageError msg)
           | None \<Rightarrow>
               (case JSON_parse rt (or_null (items (window w t) (computeKey st key))) of
                  None \<Rightarrow> Inl SyntaxError
                | Some obj \<Rightarrow>
                    if isValidValue obj then
                      (case get_property obj EXPIRED_AT of
                         Val (JNum mills) \<Rightarrow>
                           if unExpired w mills then
                             (if mills \<noteq> - 1 \<and> keepAlive st then
                                (case computeExpiredMs rt st
                                        (Some (String_js (get_property obj EXPIRED_MS) @ ''ms'')) of
                                   Inl x \<Rightarrow> Inl x
                                 | Inr _ \<Rightarrow> Inr (get_property obj STOREAGE_VALUE))
                              else Inr (get_property obj STOREAGE_VALUE))
                           else Inr null
                       | _ \<Rightarrow> Inr null)
                    else Inr null)))"
proof (cases "storage st")
  case None
  then show ?thesis by (simp add: get_try_def)
next
  case (Some t)
  show ?thesis
  proof (cases "raises (window w t)")
    case (Some msg)
    with \<open>storage st = Some t\<close> show ?thesis by (simp add: get_try_def getItem_def)
  next
    case None
    show ?thesis
    proof (cases "JSON_parse rt (or_null (items (window w t) (computeKey st key)))")
      case None
      with \<open>storage st = Some t\<close> \<open>raises (window w t) = None\<close> show ?thesis
        by (simp add: get_try_def getItem_def)
    next
      case (Some obj)
      have s: "\<And>v a b. fst (case set_op rt st w key v a of
                   (Inl e, st', w') \<Rightarrow> (Inl e, st', w')
                 | (Inr u, st', w') \<Rightarrow> (Inr b, st', w')) =
               (case fst (set_op rt st w key v a) of Inl e \<Rightarrow> Inl e | Inr u \<Rightarrow> Inr b)"
        by (simp split: prod.splits sum.splits)
      from Some \<open>storage st = Some t\<close> \<open>raises (window w t) = None\<close> show ?thesis
        by (simp add: get_try_def getItem_def removeItem_def Let_def s fst_set_op
            split: any.splits json.splits sum.splits)
    qed
  qed
qed

lemma fst_get:
  "fst (get rt st w key) =
     (case fst (get_try rt (notifyAction st GetAction_TYPE (GetAction key)) w key) of
        Inl e \<Rightarrow> Inr null
      | Inr v \<Rightarrow> Inr v)"
  by (simp add: get_def Let_def split: prod.splits sum.splits)

lemma set_op_ok:
  assumes "storage st = Some t" and "raises (window w t) = None"
    and "computeExpiredMs rt st e = Inr ttl"
  shows "set_op rt st w key v e =
           (Inr (), notifyAction st SetAction_TYPE (SetAction key v e),
            put_medium w t ((window w t)\<lparr>items := (items (window w t))
              (computeKey st key \<mapsto>
                 JSON_stringify rt (envelope ttl (if ttl = - 1 then - 1 else now w + ttl) v))\<rparr>))"
  using assms by (simp add: set_op_def Let_def setItem_def)

lemma world_set_op:
  "snd (snd (set_op rt st w key v e)) = w \<or>
   (\<exists>t x. storage st = Some t \<and> raises (window w t) = None \<and>
      snd (snd (set_op rt st w key v e)) =
        put_medium w t ((window w t)\<lparr>items := (items (window w t))(computeKey st key \<mapsto> x)\<rparr>))"
  by (auto simp: set_op_def Let_def setItem_def split: sum.splits option.splits)

lemma computeKey_same_key:
  "computeKey st1 k = computeKey st2 k \<longleftrightarrow> prefix st1 = prefix st2"
  by (simp add: computeKey_def)

lemma fst_get_try_cong:
  assumes "now w' = now w"
    and "\<And>t. storage st = Some t \<Longrightarrow>
           raises (window w' t) = raises (window w t) \<and>
           items (window w' t) (computeKey st key) = items (window w t) (computeKey st key)"
  shows "fst (get_try rt st w' key) = fst (get_try rt st w key)"
proof (cases "storage st")
  case None
  then show ?thesis by (simp add: fst_get_try)
next
  case (Some t)
  from assms(2) [OF Some] assms(1) Some show ?thesis
    by (simp add: fst_get_try unExpired_def
        cong: option.case_cong any.case_cong json.case_cong if_cong)
qed

lemma constructor_usable:
  assumes "initConfig rt config = Inr st0"
    and "storageType = LOCAL \<or> storageType = SESSION"
    and "present (window w storageType)"
    and "raises (window w storageType) = None"
  shows "constructor rt storageType config w =
           Inr (st0\<lparr>storage := Some storageType\<rparr>,
                put_medium w storageType
                  ((window w storageType)\<lparr>items :=
                     (items (window w storageType))(prefix st0 @ ''_CHECK_SUPPORT'' := None)\<rparr>))"
proof -
  have c: "checkSupport st0 w storageType =
             (True, st0, put_medium w storageType
                ((window w storageType)\<lparr>items :=
                   (items (window w storageType))(prefix st0 @ ''_CHECK_SUPPORT'' := None)\<rparr>))"
    using assms(3,4) by (simp add: checkSupport_def Let_def setItem_def removeItem_def)
  from assms(2) show ?thesis
    using c assms(1) by (auto simp: constructor_def initStorage_def)
qed

lemma errors_notifyAction:
  "errors (notifyAction st a x) =
     errors st @ (if actionNotify st a
                  then (case observer st x of None \<Rightarrow> [] | Some msg \<Rightarrow> [Fault 500 msg])
                  else [])"
  by (simp add: notifyAction_def errors_next_def split: option.splits)

lemma actions_notifyAction:
  "actions (notifyAction st a x) = actions st @ (if actionNotify st a then [x] else [])"
  by (simp add: notifyAction_def errors_next_def split: option.splits)

lemma store_set_op:
  "fst (snd (set_op rt st w key v e)) = notifyAction st SetAction_TYPE (SetAction key v e)"
  by (simp add: set_op_def Let_def split: sum.splits option.splits)

section \<open>Unavailable backend\<close>

text \<open>
  C1. For a store constructed against an unavailable backend (the handle left unset), every
  later public operation is a no-op that does not raise. The code does not guard the handle:
  on the store that construction leaves behind on a medium that throws on every access,
  \<open>get\<close> returns \<^verbatim>\<open>null\<close> (its \<^verbatim>\<open>catch\<close> absorbs the failure), while \<open>set\<close>,
  \<open>remove\<close> and \<open>clear\<close> raise a \<^verbatim>\<open>TypeError\<close> to the caller.
\<close>

theorem unavailable_backend_operations:
  "constructor reference_runtime LOCAL default_config (world_of (throwing_medium ''denied'') 0) =
     Inr (unavailable_store, world_of (throwing_medium ''denied'') 0) \<and>
   fst (set_op reference_runtime unavailable_store (world_of (throwing_medium ''denied'') 0)
          ''k'' (Val (JNum 1)) None) = Inl TypeError \<and>
   fst (remove unavailable_store (world_of (throwing_medium ''denied'') 0) ''k'') = Inl TypeError \<and>
   fst (clear unavailable_store (world_of (throwing_medium ''denied'') 0)) = Inl TypeError \<and>
   fst (get reference_runtime unavailable_store (world_of (throwing_medium ''denied'') 0) ''k'') =
     Inr null"
  by (simp add: constructor_def initConfig_def initStorage_def checkSupport_def
      default_config_def world_of_def throwing_medium_def setItem_def errors_next_def
      unavailable_store_def set_op_def remove_def clear_def get_def get_try_def
      notifyAction_def computeExpiredMs_def)

text \<open>
  C3 as stated: construction against a medium that throws on every access emits exactly one
  error notification. On such a medium the probe reports the fault with code 500 and
  \<open>initStorage\<close> then reports the medium as not supported: two notifications.
\<close>

theorem construction_single_error_counterexample:
  "length (construction_errors reference_runtime LOCAL default_config
             (world_of (throwing_medium ''denied'') 0)) \<noteq> 1 \<and>
   construction_errors reference_runtime LOCAL default_config
     (world_of (throwing_medium ''denied'') 0) =
   [Fault 500 ''denied'', LOCAL_STORAGE_NOT_SUPPORTED]"
  by (simp add: construction_errors_def constructor_def initConfig_def initStorage_def
      checkSupport_def default_config_def world_of_def throwing_medium_def setItem_def
      errors_next_def)

text \<open>
  C3, amended: constructing a store against a present medium that throws on every access
  emits exactly two error notifications during construction, first the code-500 error with
  the underlying message, then the not-supported error of the medium; the handle stays unset
  and the world is unchanged.
\<close>

theorem construction_emits_two_errors:
  assumes "storageType = LOCAL \<or> storageType = SESSION"
    and "present (window w storageType)"
    and "raises (window w storageType) = Some msg"
    and "initConfig rt config = Inr st0"
  shows "\<exists>st. constructor rt storageType config w = Inr (st, w) \<and>
           storage st = None \<and>
           errors st = [Fault 500 msg,
                        if storageType = LOCAL then LOCAL_STORAGE_NOT_SUPPORTED
                        else SESSION_STORAGE_NOT_SUPPORTED] \<and>
           construction_errors rt storageType config w = errors st"
proof -
  from assms(4) have st0: "errors st0 = []" "storage st0 = None"
    by (auto simp: initConfig_def split: sum.splits)
  from assms(2,3) have c: "checkSupport st0 w storageType = (False, errors_next st0 (Fault 500 msg), w)"
    by (simp add: checkSupport_def Let_def setItem_def)
  from assms(1) show ?thesis
    using c st0 assms(4)
    by (auto simp: constructor_def construction_errors_def initStorage_def errors_next_def)
qed

theorem construction_emits_two_errors_witness:
  "\<exists>st. constructor reference_runtime SESSION default_config
           (world_of (throwing_medium ''quota'') 7) =
         Inr (st, world_of (throwing_medium ''quota'') 7) \<and>
        storage st = None \<and>
        errors st = [Fault 500 ''quota'', SESSION_STORAGE_NOT_SUPPORTED] \<and>
        construction_errors reference_runtime SESSION default_config
          (world_of (throwing_medium ''quota'') 7) = errors st"
proof -
  have a: "SESSION = LOCAL \<or> SESSION = SESSION" by simp
  have b: "present (window (world_of (throwing_medium ''quota'') 7) SESSION)"
    by (simp add: world_of_def throwing_medium_def)
  have c: "raises (window (world_of (throwing_medium ''quota'') 7) SESSION) = Some ''quota''"
    by (simp add: world_of_def throwing_medium_def)
  have d: "initConfig reference_runtime default_config =
             Inr \<lparr> storage = None, prefix = ''MIZNE'', expiredMs = - 1, keepAlive = False,
                   actionNotify = (\<lambda>_. False), errors = [], actions = [],
                   observer = (\<lambda>_. None) \<rparr>"
    by (simp add: initConfig_def default_config_def)
  show ?thesis
    using construction_emits_two_errors [OF a b c d] by simp
qed

section \<open>Key prefixing\<close>

text \<open>
  C4 as stated: for two stores with different prefixes on the same medium and every pair of
  external keys, the internal keys never coincide. The separator can occur in a prefix and in
  a key: prefix \<^verbatim>\<open>a\<close> with key \<^verbatim>\<open>__b\<close> and prefix \<^verbatim>\<open>a__\<close> with key \<^verbatim>\<open>b\<close> give the same
  internal key, and the second store reads what the first one wrote.
\<close>

theorem key_collision_counterexample:
  "prefix (local_store ''a'' (- 1) False (\<lambda>_. False)) \<noteq>
     prefix (local_store ''a__'' (- 1) False (\<lambda>_. False)) \<and>
   computeKey (local_store ''a'' (- 1) False (\<lambda>_. False)) ''__b'' =
     computeKey (local_store ''a__'' (- 1) False (\<lambda>_. False)) ''b'' \<and>
   fst (get reference_runtime (local_store ''a__'' (- 1) False (\<lambda>_. False))
          (snd (snd (set_op reference_runtime (local_store ''a'' (- 1) False (\<lambda>_. False))
                       (world_of usable_medium 0) ''__b'' (Val (JNum 7)) None)))
          ''b'') = Inr (Val (JNum 7))"
  by code_simp

text \<open>
  C4, amended: for two stores with different prefixes and the same external key, the
  internal keys differ; a \<open>set\<close> through one store leaves the other store's entry for that
  key untouched on every medium, and the other store's \<open>get\<close> for that key returns what it
  returned before.
\<close>

theorem distinct_prefixes_same_key:
  assumes "prefix st1 \<noteq> prefix st2"
  shows "computeKey st1 k \<noteq> computeKey st2 k \<and>
         (\<forall>t. items (window (snd (snd (set_op rt st1 w k v e))) t) (computeKey st2 k) =
               items (window w t) (computeKey st2 k)) \<and>
         fst (get rt st2 (snd (snd (set_op rt st1 w k v e))) k) = fst (get rt st2 w k)"
proof -
  let ?w = "snd (snd (set_op rt st1 w k v e))"
  from assms have ne: "computeKey st1 k \<noteq> computeKey st2 k"
    by (simp add: computeKey_same_key)
  have frame: "now ?w = now w \<and>
               (\<forall>t. raises (window ?w t) = raises (window w t) \<and>
                    items (window ?w t) (computeKey st2 k) = items (window w t) (computeKey st2 k))"
    using world_set_op [of rt st1 w k v e] ne by (auto simp: put_medium_def)
  then have "fst (get_try rt (notifyAction st2 GetAction_TYPE (GetAction k)) ?w k) =
             fst (get_try rt (notifyAction st2 GetAction_TYPE (GetAction k)) w k)"
    by (intro fst_get_try_cong) simp_all
  with ne frame show ?thesis by (simp add: fst_get)
qed

theorem distinct_prefixes_same_key_witness:
  "prefix (local_store ''app'' (- 1) False (\<lambda>_. False)) \<noteq>
     prefix (local_store ''web'' (- 1) False (\<lambda>_. False)) \<and>
   computeKey (local_store ''app'' (- 1) False (\<lambda>_. False)) ''k'' \<noteq>
     computeKey (local_store ''web'' (- 1) False (\<lambda>_. False)) ''k'' \<and>
   (\<forall>t. items (window (snd (snd (set_op reference_runtime
                  (local_store ''app'' (- 1) False (\<lambda>_. False))
                  (world_of usable_medium 0) ''k'' (Val (JNum 7)) None))) t)
           (computeKey (local_store ''web'' (- 1) False (\<lambda>_. False)) ''k'') =
         items (window (world_of usable_medium 0) t)
           (computeKey (local_store ''web'' (- 1) False (\<lambda>_. False)) ''k'')) \<and>
   fst (get reference_runtime (local_store ''web'' (- 1) False (\<lambda>_. False))
          (snd (snd (set_op reference_runtime (local_store ''app'' (- 1) False (\<lambda>_. False))
                       (world_of usable_medium 0) ''k'' (Val (JNum 7)) None)))
          ''k'') =
     fst (get reference_runtime (local_store ''web'' (- 1) False (\<lambda>_. False))
            (world_of usable_medium 0) ''k'')"
proof -
  have h: "prefix (local_store ''app'' (- 1) False (\<lambda>_. False)) \<noteq>
           prefix (local_store ''web'' (- 1) False (\<lambda>_. False))"
    by (simp add: local_store_def)
  show ?thesis
    using h distinct_prefixes_same_key [OF h, where k = "''k''" and rt = reference_runtime
        and w = "world_of usable_medium 0" and v = "Val (JNum 7)" and e = None]
    by blast
qed

end
